theory Spec2Isabelle
  imports Main "HOL-Library.Word"
begin

unbundle bit_operations_syntax

section \<open>Data model of \<open>spirv_cross.hpp\<close>\<close>

text \<open>
  IDs and stream words are \<open>uint32_t\<close> throughout the header. A failing call raises a C++
  exception; the model returns it as the left summand of a sum type.
  \<^item> \<open>OutOfRange\<close> is \<open>std::out_of_range\<close>, raised by \<open>std::vector::at\<close>;
  \<^item> \<open>CompilerError msg\<close> is the \<open>CompilerError\<close> thrown with a message;
  \<^item> \<open>TypeMismatch\<close> is the failure of a required-present query on a slot that is
    empty or holds another kind.
\<close>

type_synonym uint32_t = "32 word"
type_synonym uint64_t = "64 word"

datatype error = OutOfRange | CompilerError string | TypeMismatch

text \<open>
  Modelled from the spec: \<open>Instruction\<close> (declared in \<open>spirv_common.hpp\<close>, outside this
  header): opcode, word-offset into the stream, word-length. Offset and length are taken
  at the width of every other word quantity of the header.
\<close>

record Instruction =
  op :: "16 word"
  offset :: uint32_t
  length_w :: uint32_t

text \<open>
  Modelled from the spec: the tags of an ID slot (\<open>Types\<close> in \<open>spirv_common.hpp\<close>): exactly
  one of Type, Variable, Constant, Function, Block, Undefined, or none for a slot that is
  not bound yet. \<open>T\<close> ranges over the payload classes a template parameter can name, and
  \<open>T_type\<close> is the static member \<open>T::type\<close>.
\<close>

datatype Types = TypeNone | TypeType | TypeVariable | TypeConstant | TypeFunction
  | TypeBlock | TypeUndef

datatype T = SPIRType | SPIRVariable | SPIRConstant | SPIRFunction | SPIRBlock | SPIRUndef

fun T_type :: "T \<Rightarrow> Types" where
  "T_type SPIRType = TypeType"
| "T_type SPIRVariable = TypeVariable"
| "T_type SPIRConstant = TypeConstant"
| "T_type SPIRFunction = TypeFunction"
| "T_type SPIRBlock = TypeBlock"
| "T_type SPIRUndef = TypeUndef"

text \<open>
  Modelled from the spec: a payload (\<open>IVariant\<close>) carries its own ID in \<open>self\<close>; what else
  the concrete class holds is built from the constructor arguments and kept in \<open>contents\<close>.
  A slot (\<open>Variant\<close>) is empty or holds one payload together with its kind.
\<close>

record 'a IVariant =
  self :: uint32_t
  contents :: 'a

type_synonym 'a Variant = "(T \<times> 'a IVariant) option"

text \<open>
  Modelled from the spec: \<open>Meta\<close> (declared in \<open>spirv_common.hpp\<close>): the name of the ID
  (empty means no declared name), the decoration bitmask and the argument value of each
  decoration. A decoration is the number of its enumerator in \<open>spv::Decoration\<close>, which is
  the position of its bit in the mask.
\<close>

type_synonym Decoration = nat

record Meta =
  name :: string
  decoration_flags :: uint64_t
  decoration_args :: "Decoration \<Rightarrow> uint32_t"

text \<open>
  The members of \<open>class Compiler\<close> that the operations below read or write: the word
  buffer, the ID table with its parallel metadata table, and the block sets of the
  control-flow classifier.
\<close>

record 'a Compiler =
  spirv :: "uint32_t list"
  ids :: "'a Variant list"
  meta :: "Meta list"
  loop_blocks :: "uint32_t set"
  continue_blocks :: "uint32_t set"
  loop_merge_targets :: "uint32_t set"
  selection_merge_targets :: "uint32_t set"
  multiselect_merge_targets :: "uint32_t set"

section \<open>Word stream reader\<close>

text \<open>
  \<open>Compiler::stream\<close>. The result is a pointer into \<open>spirv\<close>: \<open>None\<close> is \<open>nullptr\<close>,
  \<open>Some i\<close> is \<open>&spirv[i]\<close>. The sum \<open>instr.offset + instr.length\<close> is computed on
  \<open>uint32_t\<close> and then compared with the \<open>size_t\<close> size of the buffer.
\<close>

definition stream :: "'a Compiler \<Rightarrow> Instruction \<Rightarrow> error + nat option" where
  "stream c instr =
     (if length_w instr = 0 then Inr None
      else if unat (offset instr + length_w instr) > length (spirv c)
        then Inl (CompilerError ''Compiler::stream() out of range.'')
      else Inr (Some (unat (offset instr))))"

section \<open>Control-flow classifier\<close>

definition is_continue :: "'a Compiler \<Rightarrow> uint32_t \<Rightarrow> bool" where
  "is_continue c next \<longleftrightarrow> next \<in> continue_blocks c"

definition is_break :: "'a Compiler \<Rightarrow> uint32_t \<Rightarrow> bool" where
  "is_break c next \<longleftrightarrow> next \<in> loop_merge_targets c \<or> next \<in> multiselect_merge_targets c"

definition is_conditional :: "'a Compiler \<Rightarrow> uint32_t \<Rightarrow> bool" where
  "is_conditional c next \<longleftrightarrow>
     next \<in> selection_merge_targets c \<and> next \<notin> multiselect_merge_targets c"

text \<open>
  Modelled from the spec: what the parser records for a loop header (in
  \<open>spirv_cross.cpp\<close>, outside this header): the header joins
  \<open>loop_blocks\<close>, the block marked as the loop's merge joins \<open>loop_merge_targets\<close>, the
  block marked as its continue target joins \<open>continue_blocks\<close>.
\<close>

record LoopMerge =
  header :: uint32_t
  merge_block :: uint32_t
  continue_block :: uint32_t

definition mark_loop_merge :: "LoopMerge \<Rightarrow> 'a Compiler \<Rightarrow> 'a Compiler" where
  "mark_loop_merge l c =
     c\<lparr>loop_blocks := insert (header l) (loop_blocks c),
       loop_merge_targets := insert (merge_block l) (loop_merge_targets c),
       continue_blocks := insert (continue_block l) (continue_blocks c)\<rparr>"

section \<open>ID table\<close>

text \<open>\<open>std::vector::at\<close>: the element, or \<open>std::out_of_range\<close> past the end.\<close>

definition at_vec :: "'x list \<Rightarrow> uint32_t \<Rightarrow> error + 'x" where
  "at_vec v i = (if unat i < length v then Inr (v ! unat i) else Inl OutOfRange)"

text \<open>
  Modelled from the spec: the helpers of \<open>spirv_common.hpp\<close> that the accessors call.
  \<open>get_type\<close> is the tag of a slot; \<open>variant_get\<close> returns the bound payload or fails if
  the slot is absent or of the wrong kind; \<open>variant_set\<close> constructs a payload of the given
  kind from the arguments and binds it to the slot, returning the slot and the payload.
\<close>

definition get_type :: "'a Variant \<Rightarrow> Types" where
  "get_type v = (case v of None \<Rightarrow> TypeNone | Some (t, p) \<Rightarrow> T_type t)"

definition variant_get :: "T \<Rightarrow> 'a Variant \<Rightarrow> error + 'a IVariant" where
  "variant_get t v =
     (case v of
        None \<Rightarrow> Inl TypeMismatch
      | Some (t', p) \<Rightarrow> if T_type t' = T_type t then Inr p else Inl TypeMismatch)"

definition variant_set :: "T \<Rightarrow> 'a Variant \<Rightarrow> 'a \<Rightarrow> 'a Variant \<times> 'a IVariant" where
  "variant_set t v args =
     (let p = \<lparr>self = 0, contents = args\<rparr> in (Some (t, p), p))"

text \<open>
  \<open>Compiler::set\<close>. \<open>ids.at(id)\<close> raises before anything is written. \<open>var\<close> is a reference
  to the payload that the slot owns, so \<open>var.self = id\<close> changes the stored payload. The
  result pairs what the call returns or raises with the compiler after the call.
\<close>

definition set_T ::
  "'a Compiler \<Rightarrow> uint32_t \<Rightarrow> T \<Rightarrow> 'a \<Rightarrow> (error + 'a IVariant) \<times> 'a Compiler" where
  "set_T c i t args =
     (case at_vec (ids c) i of
        Inl e \<Rightarrow> (Inl e, c)
      | Inr slot \<Rightarrow>
          (let (slot', var) = variant_set t slot args;
               var' = var\<lparr>self := i\<rparr>
           in (Inr var', c\<lparr>ids := (ids c)[unat i := map_option (\<lambda>(k, p). (k, var')) slot']\<rparr>)))"

text \<open>\<open>Compiler::get\<close>, const and non-const alike.\<close>

definition get :: "'a Compiler \<Rightarrow> uint32_t \<Rightarrow> T \<Rightarrow> error + 'a IVariant" where
  "get c i t =
     (case at_vec (ids c) i of
        Inl e \<Rightarrow> Inl e
      | Inr slot \<Rightarrow> variant_get t slot)"

text \<open>
  \<open>Compiler::maybe_get\<close>, const and non-const alike: \<open>None\<close> is \<open>nullptr\<close>, \<open>Some p\<close> the
  address of the payload.
\<close>

definition maybe_get :: "'a Compiler \<Rightarrow> uint32_t \<Rightarrow> T \<Rightarrow> error + 'a IVariant option" where
  "maybe_get c i t =
     (case at_vec (ids c) i of
        Inl e \<Rightarrow> Inl e
      | Inr slot \<Rightarrow>
          if get_type slot = T_type t
          then (case get c i t of Inl e \<Rightarrow> Inl e | Inr p \<Rightarrow> Inr (Some p))
          else Inr None)"

section \<open>Names and decorations\<close>

text \<open>
  Modelled from the spec: \<open>get_name\<close>, \<open>set_name\<close>, \<open>set_decoration\<close>, \<open>get_decoration\<close>,
  \<open>get_decoration_mask\<close> and \<open>unset_decoration\<close> are declared in the header and defined in
  \<open>spirv_cross.cpp\<close>, outside this header. Each addresses the metadata of an ID in the
  table parallel to the ID table; an ID at or beyond the bound is an out-of-range error
  and leaves the tables as they are. The mask is
  \<open>(1ull << DecorationFoo) | (1ull << DecorationBar)\<close>. \<open>set_decoration\<close> applies the
  decoration and keeps its argument. \<open>get_decoration\<close> follows the header's contract:
  it gets the value for decorations which take arguments, and returns 0 if the decoration
  does not exist on the ID or is not recognised. Which decorations are recognised is
  fixed in \<open>spirv_cross.cpp\<close>; the set of them is the parameter \<open>recognized\<close>.
\<close>

definition get_name :: "'a Compiler \<Rightarrow> uint32_t \<Rightarrow> error + string" where
  "get_name c i = (case at_vec (meta c) i of Inl e \<Rightarrow> Inl e | Inr m \<Rightarrow> Inr (name m))"

definition set_name :: "'a Compiler \<Rightarrow> uint32_t \<Rightarrow> string \<Rightarrow> error + 'a Compiler" where
  "set_name c i n =
     (case at_vec (meta c) i of
        Inl e \<Rightarrow> Inl e
      | Inr m \<Rightarrow> Inr (c\<lparr>meta := (meta c)[unat i := m\<lparr>name := n\<rparr>]\<rparr>))"

definition set_decoration ::
  "'a Compiler \<Rightarrow> uint32_t \<Rightarrow> Decoration \<Rightarrow> uint32_t \<Rightarrow> error + 'a Compiler" where
  "set_decoration c i decoration argument =
     (case at_vec (meta c) i of
        Inl e \<Rightarrow> Inl e
      | Inr m \<Rightarrow>
          Inr (c\<lparr>meta := (meta c)[unat i := m
            \<lparr>decoration_flags := decoration_flags m OR push_bit decoration 1,
             decoration_args := (decoration_args m)(decoration := argument)\<rparr>]\<rparr>))"



definition unset_decoration ::
  "'a Compiler \<Rightarrow> uint32_t \<Rightarrow> Decoration \<Rightarrow> error + 'a Compiler" where
  "unset_decoration c i decoration =
     (case at_vec (meta c) i of
        Inl e \<Rightarrow> Inl e
      | Inr m \<Rightarrow>
          Inr (c\<lparr>meta := (meta c)[unat i := m
            \<lparr>decoration_flags := decoration_flags m AND NOT (push_bit decoration 1),
             decoration_args := (decoration_args m)(decoration := 0)\<rparr>]\<rparr>))"

text \<open>
  Modelled from the spec: \<open>join\<close> (a template of \<open>spirv_common.hpp\<close>) writes its arguments
  one after the other into a string; for the fallback name that is a fixed prefix plus
  the numeric ID, in decimal.
\<close>

definition digit_char :: "nat \<Rightarrow> char" where
  "digit_char d = ''0123456789'' ! d"

function to_string :: "nat \<Rightarrow> string" where
  "to_string n =
     (if n < 10 then [digit_char n] else to_string (n div 10) @ [digit_char (n mod 10)])"
  by pat_completeness auto
termination
  by (relation "measure (\<lambda>n. n)") auto

declare to_string.simps [simp del]

definition join :: "string \<Rightarrow> uint32_t \<Rightarrow> string" where
  "join s i = s @ to_string (unat i)"

text \<open>\<open>Compiler::get_fallback_name\<close>, as the header defines it.\<close>

definition get_fallback_name :: "'a Compiler \<Rightarrow> uint32_t \<Rightarrow> string" where
  "get_fallback_name c i = join ''_'' i"

section \<open>Histories of a module\<close>

text \<open>
  Modelled from the spec: a module whose tables have been sized to the bound and in which
  nothing is bound, named, decorated or classified yet.
\<close>

definition default_Meta :: Meta where
  "default_Meta = \<lparr>name = [], decoration_flags = 0, decoration_args = (\<lambda>d. 0)\<rparr>"

definition new_module :: "uint32_t list \<Rightarrow> nat \<Rightarrow> 'a Compiler" where
  "new_module ir bound =
     \<lparr>spirv = ir, ids = replicate bound None, meta = replicate bound default_Meta,
      loop_blocks = {}, continue_blocks = {}, loop_merge_targets = {},
      selection_merge_targets = {}, multiselect_merge_targets = {}\<rparr>"

text \<open>
  Calls of the mutating interface. A call that raises leaves the compiler as it was.
\<close>

datatype 'a call =
    SetName uint32_t string
  | SetDecoration uint32_t Decoration uint32_t
  | UnsetDecoration uint32_t Decoration
  | Set uint32_t T 'a

fun keep :: "'a Compiler \<Rightarrow> error + 'a Compiler \<Rightarrow> 'a Compiler" where
  "keep c (Inl e) = c"
| "keep c (Inr c') = c'"

fun apply_call :: "'a call \<Rightarrow> 'a Compiler \<Rightarrow> 'a Compiler" where
  "apply_call (SetName i n) c = keep c (set_name c i n)"
| "apply_call (SetDecoration i d v) c = keep c (set_decoration c i d v)"
| "apply_call (UnsetDecoration i d) c = keep c (unset_decoration c i d)"
| "apply_call (Set i t args) c = snd (set_T c i t args)"

fun sets_name_of :: "uint32_t \<Rightarrow> 'a call \<Rightarrow> bool" where
  "sets_name_of i (SetName j n) = (i = j)"
| "sets_name_of i _ = False"

section \<open>Auxiliary facts\<close>

lemma T_type_not_none: "T_type t \<noteq> TypeNone"
  by (cases t) simp_all

lemma fold_mark_continue:
  "continue_blocks (fold mark_loop_merge ls c) = continue_block ` set ls \<union> continue_blocks c"
  by (induction ls arbitrary: c) (auto simp add: mark_loop_merge_def)

section \<open>Control-flow classifier: precedence and continue targets\<close>

text \<open>
  C1. A block that is a member of both \<open>multiselect_merge_targets\<close> and
  \<open>selection_merge_targets\<close> is not classified as a conditional merge and is classified
  as a break: the switch merge takes precedence.
\<close>

theorem switch_break_precedence:
  "i \<in> multiselect_merge_targets c \<Longrightarrow> i \<in> selection_merge_targets c \<Longrightarrow>
     \<not> is_conditional c i \<and> is_break c i"
  by (simp add: is_conditional_def is_break_def)

theorem switch_break_precedence_witness:
  "\<not> is_conditional ((new_module [] 8 :: unit Compiler)
       \<lparr>selection_merge_targets := {5, 7}, multiselect_merge_targets := {7}\<rparr>) 7 \<and>
   is_break ((new_module [] 8 :: unit Compiler)
       \<lparr>selection_merge_targets := {5, 7}, multiselect_merge_targets := {7}\<rparr>) 7"
  by (rule switch_break_precedence) (simp_all add: new_module_def)

text \<open>
  C2 as stated fails. Two loops are recorded: one with header 1, continue target 2 and
  merge 3, and one with header 4, continue target 5 and merge 6. For a branch inside the
  first loop the enclosing loop's continue target is block 2, yet \<open>is_continue\<close> holds of
  block 5, the continue target of the other loop: the test receives the target only and
  consults one set for the whole module.
\<close>

theorem is_continue_other_loop:
  "is_continue
     (fold mark_loop_merge
        [\<lparr>header = 1, merge_block = 3, continue_block = 2\<rparr>,
         \<lparr>header = 4, merge_block = 6, continue_block = 5\<rparr>]
        (new_module [] 8 :: unit Compiler)) 5 \<and>
   5 \<noteq> continue_block \<lparr>header = 1, merge_block = 3, continue_block = 2\<rparr>"
  by (simp add: is_continue_def mark_loop_merge_def new_module_def)

text \<open>
  C2, amended. \<open>is_continue\<close> holds of a block exactly when the block is in
  \<open>continue_blocks\<close>: after a list of loops has been recorded, exactly when it is the
  continue target of one of them, the enclosing one or any other, or was in the set
  before.
\<close>

theorem is_continue_marked:
  "is_continue (fold mark_loop_merge ls c) i \<longleftrightarrow>
     i \<in> continue_block ` set ls \<or> i \<in> continue_blocks c"
  by (simp add: is_continue_def fold_mark_continue)

theorem is_continue_marked_witness:
  "is_continue
     (fold mark_loop_merge
        [\<lparr>header = 1, merge_block = 3, continue_block = 2\<rparr>,
         \<lparr>header = 4, merge_block = 6, continue_block = 5\<rparr>]
        (new_module [] 8 :: unit Compiler)) 2 \<and>
   \<not> is_continue
     (fold mark_loop_merge
        [\<lparr>header = 1, merge_block = 3, continue_block = 2\<rparr>,
         \<lparr>header = 4, merge_block = 6, continue_block = 5\<rparr>]
        (new_module [] 8 :: unit Compiler)) 3"
  unfolding is_continue_marked by (simp add: new_module_def)

section \<open>Word stream reader: bounds\<close>

text \<open>
  C4 as stated fails. For an instruction of length zero at offset 7 of a buffer of three
  words, offset plus length exceeds the size of the buffer, and \<open>stream\<close> returns the
  null pointer instead of raising.
\<close>

theorem stream_zero_length_beyond_end:
  "length (spirv (new_module [1, 2, 3] 0 :: unit Compiler)) <
     unat (offset \<lparr>op = 0, offset = 7, length_w = 0\<rparr>) +
     unat (length_w \<lparr>op = 0, offset = 7, length_w = 0\<rparr>) \<and>
   stream (new_module [1, 2, 3] 0 :: unit Compiler) \<lparr>op = 0, offset = 7, length_w = 0\<rparr>
     = Inr None"
  by (simp add: stream_def new_module_def)

text \<open>
  C4, amended. For an instruction of nonzero length whose offset plus length is
  representable in 32 bits, \<open>stream\<close> raises the bounds error when offset plus length
  exceeds the size of the word buffer; otherwise it returns the pointer to the word at
  that offset, which lies inside the buffer.
\<close>

theorem stream_nonzero_length:
  assumes "length_w instr \<noteq> 0"
    and "unat (offset instr) + unat (length_w instr) < 2 ^ 32"
  shows "(length (spirv c) < unat (offset instr) + unat (length_w instr) \<longrightarrow>
            stream c instr = Inl (CompilerError ''Compiler::stream() out of range.'')) \<and>
         (unat (offset instr) + unat (length_w instr) \<le> length (spirv c) \<longrightarrow>
            stream c instr = Inr (Some (unat (offset instr))) \<and>
            unat (offset instr) < length (spirv c))"
proof -
  from assms(2) have sum: "unat (offset instr + length_w instr) =
      unat (offset instr) + unat (length_w instr)"
    by (simp add: unat_word_ariths)
  from assms(1) have "0 < unat (length_w instr)"
    by (simp add: unat_gt_0)
  with assms(1) sum show ?thesis
    by (auto simp add: stream_def)
qed

theorem stream_nonzero_length_witness:
  "stream (new_module [1, 2, 3] 0 :: unit Compiler) \<lparr>op = 0, offset = 1, length_w = 2\<rparr>
     = Inr (Some 1) \<and>
   stream (new_module [1, 2, 3] 0 :: unit Compiler) \<lparr>op = 0, offset = 2, length_w = 2\<rparr>
     = Inl (CompilerError ''Compiler::stream() out of range.'')"
proof -
  let ?c = "new_module [1, 2, 3] 0 :: unit Compiler"
  let ?inside = "\<lparr>op = 0, offset = 1, length_w = 2\<rparr>"
  let ?beyond = "\<lparr>op = 0, offset = 2, length_w = 2\<rparr>"
  have nonzero: "length_w ?inside \<noteq> 0" "length_w ?beyond \<noteq> 0"
    by simp_all
  have fits: "unat (offset ?inside) + unat (length_w ?inside) < 2 ^ 32"
    "unat (offset ?beyond) + unat (length_w ?beyond) < 2 ^ 32"
    by simp_all
  have "unat (offset ?inside) + unat (length_w ?inside) \<le> length (spirv ?c)"
    by (simp add: new_module_def)
  with stream_nonzero_length [OF nonzero(1) fits(1), of ?c]
  have "stream ?c ?inside = Inr (Some (unat (offset ?inside)))"
    by blast
  moreover have "length (spirv ?c) < unat (offset ?beyond) + unat (length_w ?beyond)"
    by (simp add: new_module_def)
  with stream_nonzero_length [OF nonzero(2) fits(2), of ?c]
  have "stream ?c ?beyond = Inl (CompilerError ''Compiler::stream() out of range.'')"
    by blast
  ultimately show ?thesis
    by simp
qed

text \<open>
  C10. For an instruction of length zero \<open>stream\<close> returns the null pointer whatever the
  offset and the buffer are: the bounds check is not reached, also when the offset lies
  beyond the end of the buffer.
\<close>

theorem stream_zero_length:
  assumes "length_w instr = 0"
  shows "stream c instr = Inr None"
  using assms by (simp add: stream_def)

theorem stream_zero_length_witness:
  "stream (new_module [1, 2, 3] 0 :: unit Compiler) \<lparr>op = 0, offset = 100, length_w = 0\<rparr>
     = Inr None"
  by (rule stream_zero_length) simp

section \<open>ID table: lookups\<close>

text \<open>
  C3 as stated fails. In a module of bound 4, \<open>maybe_get\<close> at ID 4 raises the
  out-of-range error of \<open>ids.at\<close> instead of returning an optional.
\<close>

theorem maybe_get_beyond_bound:
  "maybe_get (new_module [] 4 :: unit Compiler) 4 SPIRType = Inl OutOfRange"
  by (simp add: maybe_get_def at_vec_def new_module_def)

text \<open>
  C3, amended. For every ID below the size of the ID table and every kind, \<open>maybe_get\<close>
  returns an optional and does not fail: absent for an ID whose slot is not bound or is
  bound to another kind, the payload for a slot bound to the kind. For every ID at or
  beyond the size of the table it raises the out-of-range error of \<open>ids.at\<close>.
\<close>

theorem maybe_get_by_range:
  "(unat i < length (ids c) \<longrightarrow>
      (\<exists>r. maybe_get c i t = Inr r) \<and>
      (ids c ! unat i = None \<longrightarrow> maybe_get c i t = Inr None) \<and>
      (\<forall>k p. ids c ! unat i = Some (k, p) \<longrightarrow>
         maybe_get c i t = Inr (if T_type k = T_type t then Some p else None))) \<and>
   (length (ids c) \<le> unat i \<longrightarrow> maybe_get c i t = Inl OutOfRange)"
  by (auto simp add: maybe_get_def get_def variant_get_def get_type_def at_vec_def
      T_type_not_none T_type_not_none [symmetric] split: option.splits)

theorem maybe_get_by_range_witness:
  "maybe_get (snd (set_T (new_module [] 4 :: nat Compiler) 2 SPIRVariable 17)) 2 SPIRVariable
     = Inr (Some \<lparr>self = 2, contents = 17\<rparr>) \<and>
   maybe_get (snd (set_T (new_module [] 4 :: nat Compiler) 2 SPIRVariable 17)) 2 SPIRConstant
     = Inr None \<and>
   maybe_get (snd (set_T (new_module [] 4 :: nat Compiler) 2 SPIRVariable 17)) 3 SPIRVariable
     = Inr None \<and>
   maybe_get (snd (set_T (new_module [] 4 :: nat Compiler) 2 SPIRVariable 17)) 9 SPIRVariable
     = Inl OutOfRange"
proof -
  let ?c = "snd (set_T (new_module [] 4 :: nat Compiler) 2 SPIRVariable 17)"
  have len: "length (ids ?c) = 4"
    by (simp add: set_T_def at_vec_def variant_set_def Let_def new_module_def)
  have bound: "ids ?c ! unat (2 :: uint32_t) = Some (SPIRVariable, \<lparr>self = 2, contents = 17\<rparr>)"
    by (simp add: set_T_def at_vec_def variant_set_def Let_def new_module_def)
  have unbound: "ids ?c ! unat (3 :: uint32_t) = None"
    by (simp add: set_T_def at_vec_def variant_set_def Let_def new_module_def)
  have in2: "unat (2 :: uint32_t) < length (ids ?c)"
    and in3: "unat (3 :: uint32_t) < length (ids ?c)"
    and out9: "length (ids ?c) \<le> unat (9 :: uint32_t)"
    by (simp_all add: len)
  from maybe_get_by_range [of 2 ?c SPIRVariable] in2 bound
  have "maybe_get ?c 2 SPIRVariable
      = Inr (if T_type SPIRVariable = T_type SPIRVariable
             then Some \<lparr>self = 2, contents = 17\<rparr> else None)"
    by blast
  then have same: "maybe_get ?c 2 SPIRVariable = Inr (Some \<lparr>self = 2, contents = 17\<rparr>)"
    by simp
  from maybe_get_by_range [of 2 ?c SPIRConstant] in2 bound
  have "maybe_get ?c 2 SPIRConstant
      = Inr (if T_type SPIRVariable = T_type SPIRConstant
             then Some \<lparr>self = 2, contents = 17\<rparr> else None)"
    by blast
  then have other: "maybe_get ?c 2 SPIRConstant = Inr None"
    by simp
  from maybe_get_by_range [of 3 ?c SPIRVariable] in3 unbound
  have absent: "maybe_get ?c 3 SPIRVariable = Inr None"
    by blast
  from maybe_get_by_range [of 9 ?c SPIRVariable] out9
  have beyond: "maybe_get ?c 9 SPIRVariable = Inl OutOfRange"
    by blast
  from same other absent beyond show ?thesis
    by (intro conjI)
qed

section \<open>ID table: binding\<close>

text \<open>
  C5. When \<open>set\<close> binds a kind to an ID and returns its handle, \<open>get\<close> of that kind at
  that ID in the resulting table returns the payload, and the payload's \<open>self\<close> is the ID.
\<close>

theorem set_then_get_self:
  assumes "fst (set_T c i t args) = Inr h"
  shows "get (snd (set_T c i t args)) i t = Inr h \<and> self h = i"
proof -
  from assms have "unat i < length (ids c)"
    by (auto simp add: set_T_def at_vec_def split: if_splits)
  with assms show ?thesis
    by (auto simp add: set_T_def get_def at_vec_def variant_set_def variant_get_def Let_def)
qed

theorem set_then_get_self_witness:
  "get (snd (set_T (new_module [] 4 :: nat Compiler) 2 SPIRVariable 17)) 2 SPIRVariable
     = Inr \<lparr>self = 2, contents = 17\<rparr> \<and>
   self \<lparr>self = 2 :: uint32_t, contents = 17 :: nat\<rparr> = 2"
  by (rule set_then_get_self)
    (simp add: set_T_def at_vec_def variant_set_def Let_def new_module_def)

text \<open>
  C6. \<open>set\<close> with an ID at or beyond the size of the ID table raises the out-of-range
  error, and the compiler after the call is the compiler before it: the table has not
  grown.
\<close>

theorem set_beyond_bound:
  assumes "length (ids c) \<le> unat i"
  shows "set_T c i t args = (Inl OutOfRange, c)"
  using assms by (simp add: set_T_def at_vec_def)

theorem set_beyond_bound_witness:
  "set_T (new_module [] 4 :: nat Compiler) 4 SPIRVariable 17 =
     (Inl OutOfRange, new_module [] 4)"
  by (rule set_beyond_bound) (simp add: new_module_def)

text \<open>
  C7. For an ID whose slot is unbound or bound to a kind other than the one asked for,
  \<open>get\<close> fails and \<open>maybe_get\<close> returns absent.
\<close>

theorem wrong_kind_lookup:
  assumes "unat i < length (ids c)"
    and "get_type (ids c ! unat i) \<noteq> T_type t"
  shows "get c i t = Inl TypeMismatch \<and> maybe_get c i t = Inr None"
  using assms
  by (auto simp add: get_def maybe_get_def variant_get_def get_type_def at_vec_def
      split: option.splits)

theorem wrong_kind_lookup_witness:
  "get (snd (set_T (new_module [] 4 :: nat Compiler) 2 SPIRVariable 17)) 2 SPIRConstant
     = Inl TypeMismatch \<and>
   maybe_get (snd (set_T (new_module [] 4 :: nat Compiler) 2 SPIRVariable 17)) 2 SPIRConstant
     = Inr None"
  by (rule wrong_kind_lookup)
    (simp_all add: set_T_def at_vec_def variant_set_def Let_def get_type_def new_module_def)

section \<open>Names\<close>

lemma to_string_nonempty: "to_string n \<noteq> []"
  by (subst to_string.simps) simp

lemma apply_call_length_meta: "length (meta (apply_call k c)) = length (meta c)"
  by (cases k)
    (auto simp add: set_name_def set_decoration_def unset_decoration_def set_T_def
      at_vec_def variant_set_def Let_def)

lemma apply_call_name:
  assumes "\<not> sets_name_of i k"
  shows "name (meta (apply_call k c) ! unat i) = name (meta c ! unat i)"
proof (cases k)
  case (SetName j n)
  with assms have "unat j \<noteq> unat i"
    by (auto simp add: word_unat_eq_iff)
  with SetName show ?thesis
    by (simp add: set_name_def at_vec_def)
next
  case (SetDecoration j d v)
  then show ?thesis
    by (cases "unat j = unat i") (simp_all add: set_decoration_def at_vec_def)
next
  case (UnsetDecoration j d)
  then show ?thesis
    by (cases "unat j = unat i") (simp_all add: unset_decoration_def at_vec_def)
next
  case (Set j t args)
  then show ?thesis
    by (simp add: set_T_def at_vec_def variant_set_def Let_def)
qed

lemma fold_apply_call_name:
  "\<forall>k\<in>set ks. \<not> sets_name_of i k \<Longrightarrow>
     length (meta (fold apply_call ks c)) = length (meta c) \<and>
     name (meta (fold apply_call ks c) ! unat i) = name (meta c ! unat i)"
proof (induction ks arbitrary: c)
  case Nil
  then show ?case by simp
next
  case (Cons k ks)
  then show ?case
    by (simp add: apply_call_length_meta apply_call_name)
qed

text \<open>
  C8. Take a module of some bound and any history of calls none of which sets the name
  of an ID below the bound. Then \<open>get_name\<close> of that ID is the empty string, and
  \<open>get_fallback_name\<close> of it is a non-empty string that is the same in every compiler:
  it depends on the ID only.
\<close>

theorem unnamed_id_names:
  assumes "unat i < bound"
    and "\<forall>k\<in>set calls. \<not> sets_name_of i k"
  shows "get_name (fold apply_call calls (new_module ir bound)) i = Inr [] \<and>
         get_fallback_name c i \<noteq> [] \<and>
         get_fallback_name c i = get_fallback_name c' i"
proof -
  let ?c = "fold apply_call calls (new_module ir bound)"
  from assms(2) have "length (meta ?c) = bound" and "name (meta ?c ! unat i) = []"
    using fold_apply_call_name [of calls i "new_module ir bound"] assms(1)
    by (simp_all add: new_module_def default_Meta_def)
  with assms(1) show ?thesis
    by (simp add: get_name_def at_vec_def get_fallback_name_def join_def)
qed

theorem unnamed_id_names_witness:
  "get_name (fold apply_call
       [SetName 2 ''main'', SetDecoration 3 30 1, Set 3 SPIRVariable 17, UnsetDecoration 3 30]
       (new_module [] 4 :: nat Compiler)) 3 = Inr [] \<and>
   get_fallback_name (new_module [] 4 :: nat Compiler) 3 \<noteq> [] \<and>
   get_fallback_name (new_module [] 4 :: nat Compiler) 3 =
     get_fallback_name (new_module [7] 9 :: nat Compiler) 3"
  by (rule unnamed_id_names) simp_all

section \<open>Decorations\<close>





end
